theory Spec2Isabelle
  imports Main "HOL-Library.Word"
begin

unbundle bit_operations_syntax

section \<open>Values shared by all packages\<close>

text \<open>
  Go's \<open>[]byte\<close> is a list of 8-bit words, Go's \<open>string\<close> an Isabelle string (a list of
  bytes as well), \<open>uint64\<close> a 64-bit word.  A Go \<open>error\<close> is a value of the datatype
  \<open>error\<close>: the package-level sentinel errors are constructors of their own, and an
  error that only carries text (\<open>errors.New\<close>, \<open>fmt.Errorf\<close>, the errors of the
  libraries) is \<open>ErrorString\<close>.
\<close>

type_synonym byte = "8 word"
type_synonym bytes = "byte list"
type_synonym uint64 = "64 word"

datatype error =
    ErrMessageKeyUsed
  | ErrNoKeyInit
  | ErrRepoURI
  | ErrWrongSigKeyHash
  | ErrSessionAnchor
  | ErrKeyEntryNotFound
  | ErrInvalidTimes
  | ErrExpired
  | ErrFuture
  | ErrInvalidKeyInitSig
  | ErrorString string

text \<open>
  A call either returns a value (\<open>Ok\<close>; \<open>Ok ()\<close> is the nil error of a function that
  returns only an error), returns a Go error (\<open>Err\<close>), or panics (\<open>Panic\<close>, with the
  message of the run-time panic or of the explicit \<open>panic(...)\<close>).  A function that
  changes a store returns the error (or \<open>None\<close> for nil) together with the store it
  leaves behind.
\<close>

datatype 'a result = Ok 'a | Err error | Panic string

text \<open>A Go pointer: \<open>None\<close> is nil, \<open>Some a\<close> the address \<open>a\<close> of an object.\<close>

type_synonym pointer = "nat option"

text \<open>
  An \<open>io.Reader\<close> is the list of bytes it delivers before it ends; a call consumes a
  prefix.  \<open>io.ReadFull\<close> fills a buffer of \<open>n\<close> bytes and returns the rest of the
  reader, or fails: with \<open>io.EOF\<close> when the reader has no byte left, with
  \<open>io.ErrUnexpectedEOF\<close> when it ends before the buffer is full.
\<close>

type_synonym reader = bytes

definition ReadFull :: "reader \<Rightarrow> nat \<Rightarrow> error + (bytes \<times> reader)" where
  "ReadFull r n =
     (if n \<le> length r then Inr (take n r, drop n r)
      else if r = [] then Inl (ErrorString ''EOF'')
      else Inl (ErrorString ''unexpected EOF''))"

text \<open>The text of an error, for \<open>panic(err)\<close>.\<close>

fun error_text :: "error \<Rightarrow> string" where
  "error_text (ErrorString s) = s"
| "error_text e = ''error''"

definition bytes_of_string :: "string \<Rightarrow> bytes" where
  "bytes_of_string s = map (\<lambda>c. of_nat (of_char c)) s"

text \<open>
  Modelled from the spec: package \<open>log\<close> is not among the sources.  The spec has every
  failure reach the caller "with a specific kind" (key already used, index out of
  range, ...), so \<open>log.Error\<close> is taken to record its argument and hand the same error
  back; called with a string (\<open>log.Error("...")\<close>, \<open>log.Errorf(...)\<close>) it returns an
  error carrying that text, written \<open>log_Error (ErrorString ...)\<close> below.
  \<open>log.Debugf\<close> only records and is left out, except that its arguments are evaluated.
\<close>

definition log_Error :: "error \<Rightarrow> error" where
  "log_Error e = e"

section \<open>Data of package uid\<close>

text \<open>
  \<open>uid.KeyEntry\<close> is declared outside the sources; they read its fields \<open>FUNCTION\<close> and
  \<open>HASH\<close>.  The rest of the struct (further exported fields and the unexported key
  material) is the extension part \<open>'r\<close> of the record.
\<close>

record KeyEntry =
  FUNCTION :: string
  HASH :: string

record 'r SessionAnchor =
  MIXADDRESS :: string
  NYMADDRESS :: string
  PFKEYS :: "'r KeyEntry_scheme list"

record contents =
  VERSION :: string
  MSGCOUNT :: uint64
  NOTAFTER :: uint64
  NOTBEFORE :: uint64
  FALLBACK :: bool
  SIGKEYHASH :: string
  REPOURI :: string
  SESSIONANCHOR :: string
  SESSIONANCHORHASH :: string

record KeyInit =
  Contents :: contents
  SIGNATURE :: string

text \<open>
  \<open>uid.Message\<close> is declared outside the sources as well; \<open>KeyInit\<close> reads
  \<open>UIDContent.SIGKEY\<close> and \<open>UIDContent.REPOURIS\<close>.
\<close>

record 'r UIDContent =
  SIGKEY :: "'r KeyEntry_scheme"
  REPOURIS :: "string list"

record 'r Message =
  UIDContent :: "'r UIDContent"

definition MaxNotAfter :: uint64 where
  "MaxNotAfter = 90 * 24 * 60 * 60"

section \<open>Functions outside the sources\<close>

text \<open>
  The packages below call functions that are not part of the sources: the standard
  library (\<open>crypto/aes\<close>, \<open>encoding/json\<close>), and the packages \<open>encode/base64\<close>,
  \<open>cipher\<close>, \<open>uid/identity\<close> and the remainder of \<open>uid\<close>.  They are parameters: every
  function of the model takes a record \<open>L\<close> of them, and a theorem holds for every
  such record unless it states a hypothesis about one of its fields.

  \<^item> \<open>base64_Encode\<close>, \<open>base64_Decode\<close>: \<open>base64.Encode\<close> and \<open>base64.Decode\<close>.
  \<^item> \<open>SHA512\<close>: \<open>cipher.SHA512\<close>.
  \<^item> \<open>aes_Encrypt\<close>: the block function of \<open>aes.NewCipher(key)\<close>, on a block read as a
    big-endian 128-bit word.
  \<^item> \<open>json_Unmarshal\<close>: \<open>json.Unmarshal\<close> into a \<open>SessionAnchor\<close>.
  \<^item> \<open>marshalSorted_SessionAnchor\<close>, \<open>marshalSorted_contents\<close>: \<open>marshalSorted\<close> on the
    two structs (\<open>sa.json()\<close> and \<open>c.json()\<close>).
  \<^item> \<open>KeyEntry_Verify\<close>: the method \<open>ke.Verify()\<close>; \<open>None\<close> is the nil error.
  \<^item> \<open>KeyEntryEqual\<close>: \<open>uid.KeyEntryEqual\<close> on two pointers, each given as the key entry
    it points to (\<open>None\<close> for nil); the result \<open>None\<close> is a panic.
  \<^item> \<open>Ed25519_Verify pubKey message sig\<close>: \<open>SetPublicKey(pubKey)\<close> on a fresh
    \<open>cipher.Ed25519Key\<close>, then \<open>Verify(message, sig)\<close>.
  \<^item> \<open>Ed25519_Sign ke message\<close>: \<open>ke.ed25519Key.Sign(message)\<close>.
  \<^item> \<open>InitDHKey rand\<close>: the method \<open>InitDHKey(rand)\<close> on a zero \<open>KeyEntry\<close>; it returns
    the initialised key entry and what is left of the reader.
  \<^item> \<open>PrivateKey32\<close>: the method of that name; \<open>None\<close> is the nil pointer.
  \<^item> \<open>IsMapped\<close>: \<open>identity.IsMapped\<close>; \<open>None\<close> is the nil error.
  \<^item> \<open>ProtocolVersion\<close>: the constant of package \<open>uid\<close>.
\<close>

record 'r extern =
  base64_Encode :: "bytes \<Rightarrow> string"
  base64_Decode :: "string \<Rightarrow> error + bytes"
  SHA512 :: "bytes \<Rightarrow> bytes"
  aes_Encrypt :: "bytes \<Rightarrow> 128 word \<Rightarrow> 128 word"
  json_Unmarshal :: "bytes \<Rightarrow> error + 'r SessionAnchor"
  marshalSorted_SessionAnchor :: "'r SessionAnchor \<Rightarrow> bytes"
  marshalSorted_contents :: "contents \<Rightarrow> bytes"
  KeyEntry_Verify :: "'r KeyEntry_scheme \<Rightarrow> error option"
  KeyEntryEqual :: "'r KeyEntry_scheme option \<Rightarrow> 'r KeyEntry_scheme option \<Rightarrow> bool option"
  Ed25519_Verify :: "bytes \<Rightarrow> bytes \<Rightarrow> bytes \<Rightarrow> bool"
  Ed25519_Sign :: "'r KeyEntry_scheme \<Rightarrow> bytes \<Rightarrow> bytes"
  InitDHKey :: "reader \<Rightarrow> error + ('r KeyEntry_scheme \<times> reader)"
  PrivateKey32 :: "'r KeyEntry_scheme \<Rightarrow> bytes option"
  IsMapped :: "string \<Rightarrow> error option"
  ProtocolVersion :: string

section \<open>Package util (util/util.go)\<close>

primrec ContainsString :: "string list \<Rightarrow> string \<Rightarrow> bool" where
  "ContainsString [] s = False"
| "ContainsString (v # sa) s = (if v = s then True else ContainsString sa s)"

section \<open>Package aes256 (cipher/aes256/aes256.go)\<close>

text \<open>
  \<open>cipher.NewCTR(block, iv)\<close> starts a counter at the IV, read as a big-endian number
  of 16 bytes; \<open>XORKeyStream(dst, src)\<close> encrypts the counter for every 16 bytes of
  \<open>src\<close>, adding one each time (modulo \<open>2 ^ 128\<close>), and sets \<open>dst[i]\<close> to \<open>src[i]\<close> XOR
  the \<open>i\<close>-th byte of that key stream.
\<close>

definition be_bytes :: "128 word \<Rightarrow> bytes" where
  "be_bytes w = map (\<lambda>i. ucast (drop_bit (8 * (15 - i)) w)) [0..<16]"

definition be_word :: "bytes \<Rightarrow> 128 word" where
  "be_word bs = foldl (\<lambda>a b. push_bit 8 a OR ucast b) 0 bs"

primrec ctr_blocks :: "(128 word \<Rightarrow> 128 word) \<Rightarrow> 128 word \<Rightarrow> nat \<Rightarrow> bytes" where
  "ctr_blocks E c 0 = []"
| "ctr_blocks E c (Suc n) = be_bytes (E c) @ ctr_blocks E (c + 1) n"

definition XORKeyStream :: "(128 word \<Rightarrow> 128 word) \<Rightarrow> 128 word \<Rightarrow> bytes \<Rightarrow> bytes" where
  "XORKeyStream E iv src =
     map2 (\<lambda>s k. s XOR k) src (ctr_blocks E iv ((length src + 15) div 16))"

text \<open>
  \<open>CTREncrypt\<close> returns the ciphertext and what is left of the reader.  \<open>aes.BlockSize\<close>
  is 16.
\<close>

definition CTREncrypt :: "'r extern \<Rightarrow> bytes \<Rightarrow> bytes \<Rightarrow> reader \<Rightarrow> (bytes \<times> reader) result" where
  "CTREncrypt L key plaintext rand =
     (if length key \<noteq> 32 then Panic ''aes256: AES-256 key is not 32 bytes long''
      else case ReadFull rand 16 of
             Inl err \<Rightarrow> Panic (error_text err)
           | Inr (iv, rest) \<Rightarrow>
               Ok (iv @ XORKeyStream (aes_Encrypt L key) (be_word iv) plaintext, rest))"

definition CTRDecrypt :: "'r extern \<Rightarrow> bytes \<Rightarrow> bytes \<Rightarrow> bytes result" where
  "CTRDecrypt L key ciphertext =
     (if length key \<noteq> 32 then Panic ''aes256: AES-256 key is not 32 bytes long''
      else if length ciphertext < 16 then Panic ''aes256: ciphertext too short''
      else Ok (XORKeyStream (aes_Encrypt L key) (be_word (take 16 ciphertext))
                 (drop 16 ciphertext)))"

section \<open>Package msg and package session (msg/msg.go)\<close>

definition NumOfFutureKeys :: nat where
  "NumOfFutureKeys = 50"

record 'r State =
  SenderSessionCount :: uint64
  SenderMessageCount :: uint64
  MaxRecipientCount :: uint64
  RecipientTemp :: "'r KeyEntry_scheme"
  SenderSessionPub :: "'r KeyEntry_scheme"
  NextSenderSessionPub :: "'r KeyEntry_scheme option"
  NextRecipientSessionPubSeen :: "'r KeyEntry_scheme option"
  NymAddress :: string
  KeyInitSession :: bool

text \<open>
  \<open>StateEqual\<close> compares two pointers first, so the model takes the pointers and the
  heap they point into.  A call of \<open>uid.KeyEntryEqual\<close> that panics ends \<open>StateEqual\<close>;
  otherwise \<open>StateEqual\<close> goes on with its result.
\<close>

definition KeyEntryEqual_then ::
  "'r extern \<Rightarrow> 'r KeyEntry_scheme option \<Rightarrow> 'r KeyEntry_scheme option \<Rightarrow>
   (bool \<Rightarrow> bool result) \<Rightarrow> bool result" where
  "KeyEntryEqual_then L x y rest =
     (case KeyEntryEqual L x y of
        None \<Rightarrow> Panic ''uid.KeyEntryEqual''
      | Some eq \<Rightarrow> rest eq)"

definition StateEqual :: "'r extern \<Rightarrow> (nat \<Rightarrow> 'r State) \<Rightarrow> pointer \<Rightarrow> pointer \<Rightarrow> bool result" where
  "StateEqual L heap a b =
     (if a = b then Ok True
      else case a of
        None \<Rightarrow> Panic ''invalid memory address or nil pointer dereference''
      | Some pa \<Rightarrow>
         (case b of
            None \<Rightarrow> Panic ''invalid memory address or nil pointer dereference''
          | Some pb \<Rightarrow>
             (let sa = heap pa; sb = heap pb in
              if SenderSessionCount sa \<noteq> SenderSessionCount sb then Ok False
              else if SenderMessageCount sa \<noteq> SenderMessageCount sb then Ok False
              else if MaxRecipientCount sa \<noteq> MaxRecipientCount sb then Ok False
              else KeyEntryEqual_then L
                     (Some (RecipientTemp sa)) (Some (RecipientTemp sb)) (\<lambda>eq1.
              if \<not> eq1 then Ok False
              else KeyEntryEqual_then L
                     (Some (SenderSessionPub sa)) (Some (SenderSessionPub sb)) (\<lambda>eq2.
              if \<not> eq2 then Ok False
              else KeyEntryEqual_then L
                     (NextSenderSessionPub sa) (NextSenderSessionPub sb) (\<lambda>eq3.
              if \<not> eq3 then Ok False
              else KeyEntryEqual_then L
                     (NextRecipientSessionPubSeen sa) (NextRecipientSessionPubSeen sb) (\<lambda>eq4.
              if \<not> eq4 then Ok False
              else if NymAddress sa \<noteq> NymAddress sb then Ok False
              else if KeyInitSession sa \<noteq> KeyInitSession sb then Ok False
              else Ok True)))))))"

definition CalcKey :: "'r extern \<Rightarrow> string \<Rightarrow> string \<Rightarrow> string \<Rightarrow> string \<Rightarrow> string" where
  "CalcKey L senderIdentityHash recipientIdentityHash senderSessionHash recipientSessionHash =
     (let key = senderIdentityHash @ recipientIdentityHash;
          key = key @ (senderSessionHash @ recipientSessionHash)
      in base64_Encode L (SHA512 L (bytes_of_string key)))"

section \<open>Package memstore\<close>

text \<open>
  The maps of \<open>MemStore\<close> are partial functions.  \<open>sessionStates\<close> and the two key-entry
  maps hold pointers.  A \<open>memSession\<close> is only reached through its map entry, so the
  map holds it by value, with its two slices of message keys as lists: a write
  \<open>s.send[i] = ""\<close> is an update of the entry.  (The arrays behind the slices are the
  caller's; what the store reads and writes through one session is all that the
  properties below are about.)
\<close>

record memSession =
  rootKeyHash :: string
  chainKey :: string
  send :: "string list"
  recv :: "string list"

record MemStore =
  privateKeyEntryMap :: "string \<rightharpoonup> pointer"
  publicKeyEntryMap :: "string \<rightharpoonup> pointer"
  sessionStates :: "string \<rightharpoonup> pointer"
  sessions :: "string \<rightharpoonup> memSession"
  senderSessionPubHash :: string

definition New :: MemStore where
  "New = \<lparr>privateKeyEntryMap = Map.empty, publicKeyEntryMap = Map.empty,
          sessionStates = Map.empty, sessions = Map.empty, senderSessionPubHash = []\<rparr>"

text \<open>A map read of a key that is not there gives the zero value, the nil pointer.\<close>

definition GetSessionState :: "MemStore \<Rightarrow> string \<Rightarrow> string \<Rightarrow> pointer \<times> error option" where
  "GetSessionState ms myID contactID =
     (case sessionStates ms (myID @ ''@'' @ contactID) of
        None \<Rightarrow> (None, None)
      | Some p \<Rightarrow> (p, None))"

text \<open>
  \<open>SetSessionState\<close> reads \<open>sessionState.SenderSessionPub.HASH\<close> for its log line
  before it stores the pointer: a nil pointer panics there.
\<close>

definition SetSessionState ::
  "MemStore \<Rightarrow> string \<Rightarrow> string \<Rightarrow> pointer \<Rightarrow> (error option \<times> MemStore) result" where
  "SetSessionState ms myID contactID sessionState =
     (case sessionState of
        None \<Rightarrow> Panic ''invalid memory address or nil pointer dereference''
      | Some p \<Rightarrow>
          Ok (None, ms\<lparr>sessionStates :=
                         (sessionStates ms)(myID @ ''@'' @ contactID \<mapsto> sessionState)\<rparr>))"

definition StoreSession ::
  "'r extern \<Rightarrow> MemStore \<Rightarrow> string \<Rightarrow> string \<Rightarrow> string \<Rightarrow> string \<Rightarrow> string \<Rightarrow>
   string list \<Rightarrow> string list \<Rightarrow> (error option \<times> MemStore) result" where
  "StoreSession L ms myID contactID senderSessionPubHash' rootKeyHash' chainKey' send' recv' =
     (case IsMapped L myID of
        Some err \<Rightarrow> Ok (Some (log_Error err), ms)
      | None \<Rightarrow>
         (case IsMapped L contactID of
            Some err \<Rightarrow> Ok (Some (log_Error err), ms)
          | None \<Rightarrow>
              if length send' \<noteq> length recv'
              then Ok (Some (log_Error (ErrorString ''memstore: len(send) != len(recv)'')), ms)
              else
                (let index = myID @ ''@'' @ contactID @ ''@'' @ senderSessionPubHash'
                 in Ok (None,
                      ms\<lparr>sessions := (sessions ms)(index \<mapsto>
                            \<lparr>rootKeyHash = rootKeyHash', chainKey = chainKey',
                             send = send', recv = recv'\<rparr>),
                         senderSessionPubHash := senderSessionPubHash'\<rparr>))))"

definition HasSession :: "MemStore \<Rightarrow> string \<Rightarrow> string \<Rightarrow> string \<Rightarrow> bool" where
  "HasSession ms myID contactID senderSessionPubHash' =
     (sessions ms (myID @ ''@'' @ contactID @ ''@'' @ senderSessionPubHash') \<noteq> None)"

text \<open>The error of \<open>log.Errorf("memstore: no session found for %s and %s", ...)\<close>.\<close>

definition no_session_found :: "string \<Rightarrow> string \<Rightarrow> error" where
  "no_session_found myID contactID =
     ErrorString (''memstore: no session found for '' @ myID @ '' and '' @ contactID)"

definition NumMessageKeys :: "MemStore \<Rightarrow> string \<Rightarrow> string \<Rightarrow> string \<Rightarrow> uint64 result" where
  "NumMessageKeys ms myID contactID senderSessionPubHash' =
     (let index = myID @ ''@'' @ contactID @ ''@'' @ senderSessionPubHash' in
      case sessions ms index of
        None \<Rightarrow> Err (log_Error (no_session_found myID contactID))
      | Some s \<Rightarrow> Ok (of_nat (length (send s))))"

text \<open>A slice read \<open>xs[i]\<close> with a \<open>uint64\<close> index: \<open>None\<close> is the panic out of range.\<close>

definition at_index :: "'a list \<Rightarrow> uint64 \<Rightarrow> 'a option" where
  "at_index xs i = (if unat i < length xs then Some (xs ! unat i) else None)"

text \<open>
  \<open>GetMessageKey\<close> returns the 64 bytes of the array \<open>messageKey\<close>: \<open>copy\<close> returns the
  smaller of the two lengths, and with 64 it has copied the first 64 bytes of \<open>k\<close>.
\<close>

definition GetMessageKey ::
  "'r extern \<Rightarrow> MemStore \<Rightarrow> string \<Rightarrow> string \<Rightarrow> string \<Rightarrow> bool \<Rightarrow> uint64 \<Rightarrow> bytes result" where
  "GetMessageKey L ms myID contactID senderSessionPubHash' sender msgIndex =
     (let index = myID @ ''@'' @ contactID @ ''@'' @ senderSessionPubHash' in
      case sessions ms index of
        None \<Rightarrow> Err (log_Error (no_session_found myID contactID))
      | Some s \<Rightarrow>
          if msgIndex \<ge> of_nat (length (send s))
          then Err (log_Error (ErrorString ''memstore: message index out of bounds''))
          else
            (case at_index (if sender then send s else recv s) msgIndex of
               None \<Rightarrow> Panic ''index out of range''
             | Some key \<Rightarrow>
                (let party = (if sender then ''sender'' else ''recipient'') in
                 if key = [] then Err (log_Error ErrMessageKeyUsed)
                 else
                   (case base64_Decode L key of
                      Inl err \<Rightarrow>
                        Err (log_Error (ErrorString (''memstore: cannot decode '' @ party @
                               '' key for '' @ myID @ '' and '' @ contactID @ '': '')))
                    | Inr k \<Rightarrow>
                        if min 64 (length k) \<noteq> 64
                        then Err (log_Error (ErrorString (''memstore: '' @ party @
                               '' key for '' @ myID @ '' and '' @ contactID @
                               '' has wrong length'')))
                        else Ok (take 64 k)))))"

definition DelMessageKey ::
  "MemStore \<Rightarrow> string \<Rightarrow> string \<Rightarrow> string \<Rightarrow> bool \<Rightarrow> uint64 \<Rightarrow>
   (error option \<times> MemStore) result" where
  "DelMessageKey ms myID contactID senderSessionPubHash' sender msgIndex =
     (let index = myID @ ''@'' @ contactID @ ''@'' @ senderSessionPubHash' in
      case sessions ms index of
        None \<Rightarrow> Ok (Some (log_Error (no_session_found myID contactID)), ms)
      | Some s \<Rightarrow>
          if msgIndex \<ge> of_nat (length (send s))
          then Ok (Some (log_Error (ErrorString ''memstore: message index out of bounds'')), ms)
          else if sender
          then Ok (None, ms\<lparr>sessions := (sessions ms)(index \<mapsto>
                            s\<lparr>send := (send s)[unat msgIndex := []]\<rparr>)\<rparr>)
          else if unat msgIndex < length (recv s)
          then Ok (None, ms\<lparr>sessions := (sessions ms)(index \<mapsto>
                            s\<lparr>recv := (recv s)[unat msgIndex := []]\<rparr>)\<rparr>)
          else Panic ''index out of range'')"

text \<open>
  A client of the store: a sequence of calls that change it, run from a given store.
  The run is \<open>None\<close> when a call panics.  \<open>state_pairs\<close> lists the pairs
  \<open>(myID, contactID)\<close> that \<open>SetSessionState\<close> was called with, \<open>state_key\<close> is the key
  the store files a pair under, and \<open>GetSessionState_after\<close> is what \<open>GetSessionState\<close>
  returns after the calls on a new store.
\<close>

datatype call =
    Call_SetSessionState string string pointer
  | Call_StoreSession string string string string string "string list" "string list"
  | Call_DelMessageKey string string string bool uint64

fun apply_call :: "'r extern \<Rightarrow> MemStore \<Rightarrow> call \<Rightarrow> (error option \<times> MemStore) result" where
  "apply_call L ms (Call_SetSessionState myID contactID st) =
     SetSessionState ms myID contactID st"
| "apply_call L ms (Call_StoreSession myID contactID sph rkh ck snd' rcv') =
     StoreSession L ms myID contactID sph rkh ck snd' rcv'"
| "apply_call L ms (Call_DelMessageKey myID contactID sph sender i) =
     DelMessageKey ms myID contactID sph sender i"

fun run_calls :: "'r extern \<Rightarrow> MemStore \<Rightarrow> call list \<Rightarrow> MemStore option" where
  "run_calls L ms [] = Some ms"
| "run_calls L ms (c # cs) =
     (case apply_call L ms c of
        Ok (err, ms') \<Rightarrow> run_calls L ms' cs
      | Err e \<Rightarrow> None
      | Panic m \<Rightarrow> None)"

fun state_pairs :: "call list \<Rightarrow> (string \<times> string) list" where
  "state_pairs [] = []"
| "state_pairs (Call_SetSessionState myID contactID st # cs) = (myID, contactID) # state_pairs cs"
| "state_pairs (c # cs) = state_pairs cs"

definition state_key :: "string \<times> string \<Rightarrow> string" where
  "state_key p = fst p @ ''@'' @ snd p"

definition GetSessionState_after ::
  "'r extern \<Rightarrow> call list \<Rightarrow> string \<Rightarrow> string \<Rightarrow> (pointer \<times> error option) option" where
  "GetSessionState_after L cs myID contactID =
     map_option (\<lambda>ms. GetSessionState ms myID contactID) (run_calls L New cs)"

text \<open>An identity of the form \<open>local@domain\<close> has exactly one \<open>@\<close>.\<close>

definition single_at :: "string \<Rightarrow> bool" where
  "single_at s = (count_list s CHR ''@'' = 1)"

text \<open>Two invariants of the stores a client can reach.\<close>

definition equal_chains :: "MemStore \<Rightarrow> bool" where
  "equal_chains ms = (\<forall>k s. sessions ms k = Some s \<longrightarrow> length (send s) = length (recv s))"

definition no_nil_state :: "MemStore \<Rightarrow> bool" where
  "no_nil_state ms = (\<forall>k. sessionStates ms k \<noteq> Some None)"

section \<open>Package uid: key-init messages (uid/keyinit.go)\<close>

text \<open>
  \<open>sa.KeyEntry(function)\<close>: the first key entry of \<open>PFKEYS\<close> with that function.
\<close>

primrec find_KeyEntry :: "'r KeyEntry_scheme list \<Rightarrow> string \<Rightarrow> 'r KeyEntry_scheme result" where
  "find_KeyEntry [] function = Err ErrKeyEntryNotFound"
| "find_KeyEntry (ke # kes) function =
     (if FUNCTION ke = function then Ok ke else find_KeyEntry kes function)"

definition SessionAnchor_KeyEntry :: "'r SessionAnchor \<Rightarrow> string \<Rightarrow> 'r KeyEntry_scheme result" where
  "SessionAnchor_KeyEntry sa function = find_KeyEntry (PFKEYS sa) function"

text \<open>
  \<open>ki.SessionAnchor(sigPubKey)\<close>.  The slice expression \<open>keyHash[:32]\<close> panics on a
  slice of fewer than 32 bytes (a slice has no spare capacity here).
\<close>

definition KeyInit_SessionAnchor :: "'r extern \<Rightarrow> KeyInit \<Rightarrow> string \<Rightarrow> 'r SessionAnchor result" where
  "KeyInit_SessionAnchor L ki sigPubKey =
     (case base64_Decode L sigPubKey of
        Inl err \<Rightarrow> Err err
      | Inr pubKey \<Rightarrow>
         (let keyHash = SHA512 L pubKey in
          if SIGKEYHASH (Contents ki) \<noteq> base64_Encode L (SHA512 L keyHash)
          then Err ErrWrongSigKeyHash
          else
            (case base64_Decode L (SESSIONANCHOR (Contents ki)) of
               Inl err \<Rightarrow> Err err
             | Inr enc \<Rightarrow>
                 if length keyHash < 32 then Panic ''slice bounds out of range''
                 else
                   (case CTRDecrypt L (take 32 keyHash) enc of
                      Panic m \<Rightarrow> Panic m
                    | Err e \<Rightarrow> Err e
                    | Ok txt \<Rightarrow>
                       (case json_Unmarshal L txt of
                          Inl err \<Rightarrow> Err (log_Error err)
                        | Inr sa \<Rightarrow>
                            if SESSIONANCHORHASH (Contents ki)
                                 \<noteq> base64_Encode L (SHA512 L (marshalSorted_SessionAnchor L sa))
                            then Err ErrSessionAnchor
                            else Ok sa)))))"

text \<open>
  \<open>ki.Verify(keyInitRepositoryURIs, sigPubKey)\<close>; \<open>now\<close> is \<open>uint64(times.Now())\<close>.
\<close>

definition Verify :: "'r extern \<Rightarrow> string list \<Rightarrow> string \<Rightarrow> uint64 \<Rightarrow> KeyInit \<Rightarrow> unit result" where
  "Verify L keyInitRepositoryURIs sigPubKey now ki =
     (if \<not> ContainsString keyInitRepositoryURIs (REPOURI (Contents ki)) then Err ErrRepoURI
      else
        (case KeyInit_SessionAnchor L ki sigPubKey of
           Panic m \<Rightarrow> Panic m
         | Err err \<Rightarrow> Err err
         | Ok sa \<Rightarrow>
            (case SessionAnchor_KeyEntry sa ''ECDHE25519'' of
               Panic m \<Rightarrow> Panic m
             | Err err \<Rightarrow> Err err
             | Ok ke \<Rightarrow>
                (case KeyEntry_Verify L ke of
                   Some err \<Rightarrow> Err err
                 | None \<Rightarrow>
                     if NOTBEFORE (Contents ki) \<ge> NOTAFTER (Contents ki) then Err ErrInvalidTimes
                     else if NOTAFTER (Contents ki) < now then Err ErrExpired
                     else
                       (case base64_Decode L (SIGNATURE ki) of
                          Inl err \<Rightarrow> Err err
                        | Inr sig \<Rightarrow>
                           (case base64_Decode L sigPubKey of
                              Inl err \<Rightarrow> Err err
                            | Inr pubKey \<Rightarrow>
                                if \<not> Ed25519_Verify L pubKey
                                       (marshalSorted_contents L (Contents ki)) sig
                                then Err ErrInvalidKeyInitSig
                                else Ok ()))))))"

text \<open>
  \<open>msg.sessionAnchor(key, mixaddress, nymaddress, rand)\<close> returns the encrypted session
  anchor, its hash, the hash of the new key and its private key.
\<close>

definition Message_sessionAnchor ::
  "'r extern \<Rightarrow> 'r Message \<Rightarrow> bytes \<Rightarrow> string \<Rightarrow> string \<Rightarrow> reader \<Rightarrow>
   (string \<times> string \<times> string \<times> string) result" where
  "Message_sessionAnchor L msg key mixaddress nymaddress rand =
     (case InitDHKey L rand of
        Inl err \<Rightarrow> Err err
      | Inr (ke, rand') \<Rightarrow>
         (let sa = \<lparr>MIXADDRESS = mixaddress, NYMADDRESS = nymaddress, PFKEYS = [ke]\<rparr>;
              jsn = marshalSorted_SessionAnchor L sa;
              hash = SHA512 L jsn
          in if length key < 32 then Panic ''slice bounds out of range''
             else
               (case CTREncrypt L (take 32 key) jsn rand' of
                  Panic m \<Rightarrow> Panic m
                | Err e \<Rightarrow> Err e
                | Ok (ciphertext, rand'') \<Rightarrow>
                   (case PrivateKey32 L ke of
                      None \<Rightarrow> Panic ''invalid memory address or nil pointer dereference''
                    | Some priv \<Rightarrow>
                        Ok (base64_Encode L ciphertext, base64_Encode L hash, HASH ke,
                            base64_Encode L priv)))))"

text \<open>
  \<open>msg.KeyInit(...)\<close>; \<open>now1\<close> and \<open>now2\<close> are \<open>uint64(times.Now())\<close> at its two calls
  of the clock.  It returns the message, \<open>pubKeyHash\<close> and \<open>privateKey\<close>.
\<close>

definition Message_KeyInit ::
  "'r extern \<Rightarrow> 'r Message \<Rightarrow> uint64 \<Rightarrow> uint64 \<Rightarrow> uint64 \<Rightarrow> bool \<Rightarrow> string \<Rightarrow> string \<Rightarrow> string \<Rightarrow>
   reader \<Rightarrow> uint64 \<Rightarrow> uint64 \<Rightarrow> (KeyInit \<times> string \<times> string) result" where
  "Message_KeyInit L msg msgcount notafter notbefore fallback repoURI mixaddress nymaddress
       rand now1 now2 =
     (if notbefore \<ge> notafter then Err ErrInvalidTimes
      else if notafter < now1 then Err ErrExpired
      else if notafter > now2 + MaxNotAfter then Err ErrFuture
      else
        (case base64_Decode L (HASH (SIGKEY (UIDContent msg))) of
           Inl err \<Rightarrow> Err err
         | Inr keyHash \<Rightarrow>
            (case REPOURIS (UIDContent msg) of
               [] \<Rightarrow> Panic ''index out of range''
             | uri0 # uris \<Rightarrow>
                 if repoURI \<noteq> uri0
                 then Err (log_Error (ErrorString
                        ''uri: repoURI differs from msg.UIDContent.REPOURIS[0]''))
                 else
                   (case Message_sessionAnchor L msg keyHash mixaddress nymaddress rand of
                      Panic m \<Rightarrow> Panic m
                    | Err err \<Rightarrow> Err err
                    | Ok (sa, sah, pubKeyHash, privateKey) \<Rightarrow>
                       (let c = \<lparr>VERSION = ProtocolVersion L, MSGCOUNT = msgcount,
                                 NOTAFTER = notafter, NOTBEFORE = notbefore,
                                 FALLBACK = fallback,
                                 SIGKEYHASH = base64_Encode L (SHA512 L keyHash),
                                 REPOURI = repoURI, SESSIONANCHOR = sa,
                                 SESSIONANCHORHASH = sah\<rparr>;
                            sig = Ed25519_Sign L (SIGKEY (UIDContent msg))
                                    (marshalSorted_contents L c)
                        in Ok (\<lparr>Contents = c, SIGNATURE = base64_Encode L sig\<rparr>,
                               pubKeyHash, privateKey))))))"

text \<open>\<open>checkV1_0\<close> and \<open>Check\<close>: \<open>None\<close> is the nil error.\<close>

definition checkV1_0 :: "KeyInit \<Rightarrow> error option" where
  "checkV1_0 ki =
     (if MSGCOUNT (Contents ki) \<noteq> 0
      then Some (log_Error (ErrorString ''uid: ki.Contents.MSGCOUNT must be 0''))
      else None)"

definition Check :: "KeyInit \<Rightarrow> error option" where
  "Check ki =
     (if VERSION (Contents ki) \<noteq> ''1.0''
      then Some (log_Error (ErrorString
             (''uid: unknown ki.Contents.VERSION: '' @ VERSION (Contents ki))))
      else checkV1_0 ki)"

section \<open>A small instance of the outside functions\<close>

text \<open>
  The concrete examples below need one record of outside functions.  \<open>stub\<close> is a toy:
  its encoding maps bytes to characters one by one, its hash is 64 copies of a
  checksum, its block function adds the key length to the block, its signature of a
  message is the signer's key hash followed by the message, and its JSON writes the
  two addresses of a session anchor behind the length of the first and reads back
  one fixed key entry.  Every identity is mapped and every key entry is valid.
\<close>

definition string_of_bytes :: "bytes \<Rightarrow> string" where
  "string_of_bytes bs = map (\<lambda>b. char_of (unat b)) bs"

definition stub_key :: KeyEntry where
  "stub_key = \<lparr>FUNCTION = ''ECDHE25519'', HASH = ''pfkey''\<rparr>"

definition stub_hash :: "bytes \<Rightarrow> bytes" where
  "stub_hash bs = replicate 64 (sum_list bs + of_nat (length bs))"

definition stub_marshal :: "unit SessionAnchor \<Rightarrow> bytes" where
  "stub_marshal sa =
     of_nat (length (MIXADDRESS sa)) # bytes_of_string (MIXADDRESS sa @ NYMADDRESS sa)"

definition stub_unmarshal :: "bytes \<Rightarrow> error + unit SessionAnchor" where
  "stub_unmarshal txt =
     (case txt of
        [] \<Rightarrow> Inl (ErrorString ''unexpected end of JSON input'')
      | n # rest \<Rightarrow>
          Inr \<lparr>MIXADDRESS = string_of_bytes (take (unat n) rest),
               NYMADDRESS = string_of_bytes (drop (unat n) rest),
               PFKEYS = [stub_key]\<rparr>)"

definition stub_contents :: "contents \<Rightarrow> bytes" where
  "stub_contents c =
     bytes_of_string (VERSION c @ SIGKEYHASH c @ REPOURI c @ SESSIONANCHOR c
                      @ SESSIONANCHORHASH c)
     @ [ucast (MSGCOUNT c), ucast (NOTAFTER c), ucast (NOTBEFORE c),
        if FALLBACK c then 1 else 0]"

definition stub :: "unit extern" where
  "stub = \<lparr>base64_Encode = string_of_bytes,
           base64_Decode = (\<lambda>s. Inr (bytes_of_string s)),
           SHA512 = stub_hash,
           aes_Encrypt = (\<lambda>key b. b + of_nat (length key)),
           json_Unmarshal = stub_unmarshal,
           marshalSorted_SessionAnchor = stub_marshal,
           marshalSorted_contents = stub_contents,
           KeyEntry_Verify = (\<lambda>ke. None),
           KeyEntryEqual = (\<lambda>x y. Some (x = y)),
           Ed25519_Verify = (\<lambda>pubKey message sig.
              sig = bytes_of_string (string_of_bytes (stub_hash pubKey)) @ message),
           Ed25519_Sign = (\<lambda>ke message. bytes_of_string (HASH ke) @ message),
           InitDHKey = (\<lambda>rand. if length rand < 32
                                 then Inl (ErrorString ''unexpected EOF'')
                                 else Inr (stub_key, drop 32 rand)),
           PrivateKey32 = (\<lambda>ke. Some (replicate 32 7)),
           IsMapped = (\<lambda>identity. None),
           ProtocolVersion = ''1.0''\<rparr>"

text \<open>
  An example for \<open>stub\<close>: a UID message whose signing key has the public key
  \<open>[1, 2, 3]\<close>, a reader with 32 bytes for the new key and 16 bytes for the IV, and
  the key-init message that \<open>KeyInit\<close> makes of them for the addresses \<open>mix\<close> and
  \<open>nym\<close>, valid from 10 to 20.
\<close>

definition example_sigPubKey :: string where
  "example_sigPubKey = string_of_bytes [1, 2, 3]"

definition example_msg :: "unit Message" where
  "example_msg =
     \<lparr>UIDContent = \<lparr>SIGKEY = \<lparr>FUNCTION = ''ED25519'',
                              HASH = string_of_bytes (stub_hash [1, 2, 3])\<rparr>,
                    REPOURIS = [''repo'']\<rparr>\<rparr>"

definition example_rand :: reader where
  "example_rand = replicate 32 5 @ [0, 1, 2, 3, 4, 5, 6, 7, 8, 9, 10, 11, 12, 13, 14, 15]"

definition example_anchor :: "unit SessionAnchor" where
  "example_anchor = \<lparr>MIXADDRESS = ''mix'', NYMADDRESS = ''nym'', PFKEYS = [stub_key]\<rparr>"

definition example_contents :: contents where
  "example_contents =
     \<lparr>VERSION = ''1.0'', MSGCOUNT = 0, NOTAFTER = 20, NOTBEFORE = 10, FALLBACK = False,
      SIGKEYHASH = string_of_bytes (stub_hash (stub_hash [1, 2, 3])),
      REPOURI = ''repo'',
      SESSIONANCHOR = string_of_bytes
        ([0, 1, 2, 3, 4, 5, 6, 7, 8, 9, 10, 11, 12, 13, 14, 15]
         @ [3, 108, 107, 123, 106, 124, 107]),
      SESSIONANCHORHASH = string_of_bytes (stub_hash (stub_marshal example_anchor))\<rparr>"

definition example_KeyInit :: KeyInit where
  "example_KeyInit =
     \<lparr>Contents = example_contents,
      SIGNATURE = string_of_bytes
        (bytes_of_string (string_of_bytes (stub_hash [1, 2, 3]))
         @ stub_contents example_contents)\<rparr>"

section \<open>Properties\<close>

subsection \<open>AES-256 in counter mode\<close>

lemma length_be_bytes: "length (be_bytes w) = 16"
  by (simp add: be_bytes_def)

lemma length_ctr_blocks: "length (ctr_blocks E c n) = 16 * n"
  by (induction n arbitrary: c) (simp_all add: length_be_bytes)

lemma length_XORKeyStream: "length (XORKeyStream E iv src) = length src"
proof -
  have "length src \<le> 16 * ((length src + 15) div 16)" by arith
  then show ?thesis by (simp add: XORKeyStream_def length_ctr_blocks)
qed

lemma map2_xor_twice:
  fixes p :: bytes
  shows "length p \<le> length ks \<Longrightarrow>
         map2 (\<lambda>s k. s XOR k) (map2 (\<lambda>s k. s XOR k) p ks) ks = p"
proof (induction p arbitrary: ks)
  case Nil
  then show ?case by simp
next
  case (Cons a p)
  then obtain k ks' where "ks = k # ks'" by (cases ks) auto
  with Cons show ?case by (simp add: xor.assoc)
qed

lemma XORKeyStream_involution: "XORKeyStream E iv (XORKeyStream E iv src) = src"
proof -
  let ?ks = "ctr_blocks E iv ((length src + 15) div 16)"
  have le: "length src \<le> length ?ks"
    unfolding length_ctr_blocks by arith
  have "XORKeyStream E iv (XORKeyStream E iv src) =
        map2 (\<lambda>s k. s XOR k) (XORKeyStream E iv src) ?ks"
    by (simp add: XORKeyStream_def [of E iv "XORKeyStream E iv src"] length_XORKeyStream)
  also have "\<dots> = src"
    unfolding XORKeyStream_def [of E iv src] using le by (rule map2_xor_twice)
  finally show ?thesis .
qed

lemma CTREncrypt_Ok:
  assumes "CTREncrypt L key plaintext rand = Ok (ct, rest)"
  shows "length key = 32" and "16 \<le> length rand" and "rest = drop 16 rand"
    and "ct = take 16 rand @ XORKeyStream (aes_Encrypt L key) (be_word (take 16 rand)) plaintext"
  using assms
  by (auto simp: CTREncrypt_def ReadFull_def split: if_splits)

lemma CTRDecrypt_CTREncrypt:
  assumes "CTREncrypt L key plaintext rand = Ok (ct, rest)"
  shows "CTRDecrypt L key ct = Ok plaintext"
  using CTREncrypt_Ok [OF assms]
  by (simp add: CTRDecrypt_def XORKeyStream_involution)

text \<open>
  Claim C10.  For a key of 32 bytes, any plaintext and a reader that delivers 16 bytes,
  \<open>CTREncrypt\<close> returns a ciphertext that is 16 bytes longer than the plaintext and
  starts with those 16 bytes (the IV), and \<open>CTRDecrypt\<close> under the same key returns
  exactly the plaintext.
\<close>

theorem CTR_roundtrip:
  assumes "length key = 32" and "16 \<le> length rand"
  shows "\<exists>ct rest. CTREncrypt L key plaintext rand = Ok (ct, rest)
           \<and> length ct = length plaintext + 16
           \<and> take 16 ct = take 16 rand
           \<and> CTRDecrypt L key ct = Ok plaintext"
  using assms
  by (simp add: CTREncrypt_def CTRDecrypt_def ReadFull_def length_XORKeyStream
        XORKeyStream_involution)

theorem CTR_roundtrip_witness:
  "length (replicate 32 (1 :: byte)) = 32
   \<and> 16 \<le> length (replicate 16 (2 :: byte) @ [9])
   \<and> (\<exists>ct rest. CTREncrypt stub (replicate 32 1) [104, 105] (replicate 16 2 @ [9]) = Ok (ct, rest)
         \<and> length ct = length [104 :: byte, 105] + 16
         \<and> take 16 ct = take 16 (replicate 16 (2 :: byte) @ [9])
         \<and> CTRDecrypt stub (replicate 32 1) ct = Ok [104, 105])"
  using CTR_roundtrip [of "replicate 32 1" "replicate 16 2 @ [9]" stub "[104, 105]"]
  by simp

subsection \<open>Session state and session keys\<close>

text \<open>
  Claim C8.  \<open>StateEqual(nil, nil)\<close> returns true, and with exactly one nil argument
  \<open>StateEqual\<close> dereferences the nil pointer: for every address \<open>p\<close>, whatever state the
  heap holds there, \<open>StateEqual(nil, p)\<close> and \<open>StateEqual(p, nil)\<close> panic.
\<close>

theorem StateEqual_nil:
  "StateEqual L heap None None = Ok True
   \<and> StateEqual L heap None (Some p)
       = Panic ''invalid memory address or nil pointer dereference''
   \<and> StateEqual L heap (Some p) None
       = Panic ''invalid memory address or nil pointer dereference''"
  by (simp add: StateEqual_def)

text \<open>
  Claim C5.  \<open>CalcKey\<close> hashes the plain concatenation of its four arguments, so two
  different 4-tuples with the same concatenation get the same session key; such
  tuples exist (move a character across an argument boundary).
\<close>

theorem CalcKey_ambiguous:
  "\<exists>a b c d a' b' c' d'.
     (a, b, c, d) \<noteq> (a', b', c', d')
     \<and> a @ b @ c @ d = a' @ b' @ c' @ d'
     \<and> CalcKey L a b c d = CalcKey L a' b' c' d'"
proof -
  have "(''sid'', ''rid'', ''ss'', ''rs'') \<noteq> (''si'', ''drid'', ''s'', ''srs'')
      \<and> ''sid'' @ ''rid'' @ ''ss'' @ ''rs'' = ''si'' @ ''drid'' @ ''s'' @ ''srs''
      \<and> CalcKey L ''sid'' ''rid'' ''ss'' ''rs'' = CalcKey L ''si'' ''drid'' ''s'' ''srs''"
    by (simp add: CalcKey_def)
  then show ?thesis by (intro exI)
qed

subsection \<open>The key store in memory\<close>

lemma out_of_bounds_index:
  fixes j :: uint64
  assumes "length xs \<le> unat j"
  shows "of_nat (length xs) \<le> j"
proof -
  have "unat (of_nat (length xs) :: uint64) \<le> length xs"
    by (simp add: unat_of_nat)
  with assms show ?thesis
    by (simp add: word_le_nat_alt)
qed

lemma in_bounds_index:
  fixes i :: uint64
  assumes "\<not> of_nat (length xs) \<le> i"
  shows "unat i < length xs"
proof -
  have "unat (of_nat (length xs) :: uint64) \<le> length xs"
    by (simp add: unat_of_nat)
  with assms show ?thesis
    by (simp add: word_le_nat_alt)
qed

text \<open>
  Claim C1.  Take a session of the store and an index \<open>i\<close> of one of its two chains.
  When \<open>GetMessageKey\<close> returns the key at \<open>i\<close>, \<open>DelMessageKey\<close> for that index returns
  nil, the session keeps its chain length, and in the store left behind
  \<open>GetMessageKey\<close> at \<open>i\<close> fails with \<open>session.ErrMessageKeyUsed\<close>.  At every index \<open>j\<close>
  from the chain length on, \<open>GetMessageKey\<close> fails with the error "memstore: message
  index out of bounds", which is a different error.
\<close>

theorem message_key_used_once:
  assumes "sessions ms (myID @ ''@'' @ contactID @ ''@'' @ sph) = Some s"
  shows "(GetMessageKey L ms myID contactID sph sender i = Ok k \<longrightarrow>
           (\<exists>ms' s'. DelMessageKey ms myID contactID sph sender i = Ok (None, ms')
              \<and> sessions ms' (myID @ ''@'' @ contactID @ ''@'' @ sph) = Some s'
              \<and> length (send s') = length (send s)
              \<and> GetMessageKey L ms' myID contactID sph sender i = Err ErrMessageKeyUsed))
       \<and> (length (send s) \<le> unat j \<longrightarrow>
            GetMessageKey L ms myID contactID sph sender' j
              = Err (ErrorString ''memstore: message index out of bounds''))
       \<and> ErrMessageKeyUsed \<noteq> ErrorString ''memstore: message index out of bounds''"
proof (intro conjI impI)
  let ?index = "myID @ ''@'' @ contactID @ ''@'' @ sph"
  assume got: "GetMessageKey L ms myID contactID sph sender i = Ok k"
  from got assms have inb: "\<not> of_nat (length (send s)) \<le> i"
    by (auto simp: GetMessageKey_def Let_def split: if_splits)
  then have isend: "unat i < length (send s)" by (rule in_bounds_index)
  from got assms inb have irecv: "\<not> sender \<Longrightarrow> unat i < length (recv s)"
    by (auto simp: GetMessageKey_def Let_def at_index_def split: if_splits)
  define s' where "s' = (if sender then s\<lparr>send := (send s)[unat i := []]\<rparr>
                         else s\<lparr>recv := (recv s)[unat i := []]\<rparr>)"
  define ms' where "ms' = ms\<lparr>sessions := (sessions ms)(?index \<mapsto> s')\<rparr>"
  have del: "DelMessageKey ms myID contactID sph sender i = Ok (None, ms')"
    using assms inb irecv by (simp add: DelMessageKey_def Let_def ms'_def s'_def)
  have s'': "sessions ms' ?index = Some s'" by (simp add: ms'_def)
  have len: "length (send s') = length (send s)" by (simp add: s'_def)
  have used: "GetMessageKey L ms' myID contactID sph sender i = Err ErrMessageKeyUsed"
    using s'' inb isend irecv
    by (simp add: GetMessageKey_def Let_def len at_index_def log_Error_def) (simp add: s'_def)
  show "\<exists>ms' s'. DelMessageKey ms myID contactID sph sender i = Ok (None, ms')
              \<and> sessions ms' ?index = Some s'
              \<and> length (send s') = length (send s)
              \<and> GetMessageKey L ms' myID contactID sph sender i = Err ErrMessageKeyUsed"
  proof (rule exI [of _ ms'], rule exI [of _ s'], intro conjI)
    show "DelMessageKey ms myID contactID sph sender i = Ok (None, ms')" by (rule del)
    show "sessions ms' ?index = Some s'" by (rule s'')
    show "length (send s') = length (send s)" by (rule len)
    show "GetMessageKey L ms' myID contactID sph sender i = Err ErrMessageKeyUsed"
      by (rule used)
  qed
next
  assume "length (send s) \<le> unat j"
  from assms out_of_bounds_index [OF this]
  show "GetMessageKey L ms myID contactID sph sender' j
          = Err (ErrorString ''memstore: message index out of bounds'')"
    by (simp add: GetMessageKey_def Let_def log_Error_def)
next
  show "ErrMessageKeyUsed \<noteq> ErrorString ''memstore: message index out of bounds''"
    by simp
qed

theorem message_key_used_once_witness:
  "GetMessageKey stub
     (New\<lparr>sessions := [''a@x@b@x@h'' \<mapsto> \<lparr>rootKeyHash = ''r'', chainKey = ''c'',
                           send = [''s0'', ''s1''], recv = [''r0'', replicate 64 CHR ''k'']\<rparr>]\<rparr>)
     ''a@x'' ''b@x'' ''h'' False 1 = Ok (replicate 64 107)
   \<and> DelMessageKey
     (New\<lparr>sessions := [''a@x@b@x@h'' \<mapsto> \<lparr>rootKeyHash = ''r'', chainKey = ''c'',
                           send = [''s0'', ''s1''], recv = [''r0'', replicate 64 CHR ''k'']\<rparr>]\<rparr>)
     ''a@x'' ''b@x'' ''h'' False 1
     = Ok (None, New\<lparr>sessions := [''a@x@b@x@h'' \<mapsto> \<lparr>rootKeyHash = ''r'', chainKey = ''c'',
                           send = [''s0'', ''s1''], recv = [''r0'', []]\<rparr>]\<rparr>)
   \<and> GetMessageKey stub
     (New\<lparr>sessions := [''a@x@b@x@h'' \<mapsto> \<lparr>rootKeyHash = ''r'', chainKey = ''c'',
                           send = [''s0'', ''s1''], recv = [''r0'', []]\<rparr>]\<rparr>)
     ''a@x'' ''b@x'' ''h'' False 1 = Err ErrMessageKeyUsed
   \<and> length [''s0'', ''s1''] \<le> unat (2 :: uint64)
   \<and> GetMessageKey stub
     (New\<lparr>sessions := [''a@x@b@x@h'' \<mapsto> \<lparr>rootKeyHash = ''r'', chainKey = ''c'',
                           send = [''s0'', ''s1''], recv = [''r0'', replicate 64 CHR ''k'']\<rparr>]\<rparr>)
     ''a@x'' ''b@x'' ''h'' False 2 = Err (ErrorString ''memstore: message index out of bounds'')"
proof -
  let ?s = "\<lparr>rootKeyHash = ''r'', chainKey = ''c'',
            send = [''s0'', ''s1''], recv = [''r0'', replicate 64 CHR ''k'']\<rparr>"
  let ?ms = "New\<lparr>sessions := [''a@x@b@x@h'' \<mapsto> ?s]\<rparr>"
  let ?ms' = "New\<lparr>sessions := [''a@x@b@x@h'' \<mapsto> \<lparr>rootKeyHash = ''r'', chainKey = ''c'',
                send = [''s0'', ''s1''], recv = [''r0'', []]\<rparr>]\<rparr>"
  have stored: "sessions ?ms (''a@x'' @ ''@'' @ ''b@x'' @ ''@'' @ ''h'') = Some ?s"
    by simp
  have k: "replicate 64 CHR ''k'' \<noteq> []" by simp
  have g: "GetMessageKey stub ?ms ''a@x'' ''b@x'' ''h'' False 1 = Ok (replicate 64 107)"
    using k
    by (simp add: GetMessageKey_def at_index_def stub_def bytes_of_string_def New_def
          word_le_nat_alt)
  have d: "DelMessageKey ?ms ''a@x'' ''b@x'' ''h'' False 1 = Ok (None, ?ms')"
    by (simp add: DelMessageKey_def New_def word_le_nat_alt)
  have far: "length (send ?s) \<le> unat (2 :: uint64)" by simp
  from message_key_used_once
         [OF stored, of stub False 1 "replicate 64 107" 2 False] g d far
  show ?thesis
    by simp
qed

lemma apply_call_equal_chains:
  assumes "apply_call L ms c = Ok (err, ms')" and "equal_chains ms"
  shows "equal_chains ms'"
  using assms
  by (cases c)
     (auto simp: SetSessionState_def StoreSession_def DelMessageKey_def Let_def
        equal_chains_def split: option.splits if_splits)

lemma run_calls_equal_chains:
  assumes "run_calls L ms0 cs = Some ms" and "equal_chains ms0"
  shows "equal_chains ms"
  using assms
proof (induction cs arbitrary: ms0)
  case Nil
  then show ?case by simp
next
  case (Cons c cs)
  from Cons.prems(1) obtain err ms1 where
    step: "apply_call L ms0 c = Ok (err, ms1)" and rest: "run_calls L ms1 cs = Some ms"
    by (auto split: result.splits)
  from apply_call_equal_chains [OF step Cons.prems(2)] have "equal_chains ms1" .
  with rest show ?case by (rule Cons.IH)
qed

lemma equal_chains_New: "equal_chains New"
  by (simp add: equal_chains_def New_def)

text \<open>
  Claim C6.  A call of \<open>StoreSession\<close> with send and recv key lists of different
  lengths returns an error and leaves the store as it was, so no session is added;
  hence in every store reached from \<open>New()\<close> by calls of \<open>SetSessionState\<close>,
  \<open>StoreSession\<close> and \<open>DelMessageKey\<close> the two chains of a session have the same
  length.  \<open>NumOfFutureKeys\<close>, the number of precomputed keys of a chain, is 50.
\<close>

theorem StoreSession_length_mismatch:
  "(length send' \<noteq> length recv' \<longrightarrow>
      (\<exists>err. StoreSession L ms myID contactID sph rkh ck send' recv' = Ok (Some err, ms)))
   \<and> (run_calls L New cs = Some ms' \<and> sessions ms' k = Some s \<longrightarrow>
        length (send s) = length (recv s))
   \<and> NumOfFutureKeys = 50"
proof (intro conjI impI)
  assume "length send' \<noteq> length recv'"
  then show "\<exists>err. StoreSession L ms myID contactID sph rkh ck send' recv' = Ok (Some err, ms)"
    by (simp add: StoreSession_def split: option.splits)
next
  assume a: "run_calls L New cs = Some ms' \<and> sessions ms' k = Some s"
  then have "equal_chains ms'"
    using equal_chains_New by (intro run_calls_equal_chains [of L New cs ms']) simp_all
  with a show "length (send s) = length (recv s)"
    by (auto simp: equal_chains_def)
next
  show "NumOfFutureKeys = 50" by (simp add: NumOfFutureKeys_def)
qed

theorem StoreSession_length_mismatch_witness:
  "length [''k0'', ''k1''] \<noteq> length [''k0'']
   \<and> StoreSession stub New ''a@x'' ''b@x'' ''h'' ''r'' ''c'' [''k0'', ''k1''] [''k0'']
       = Ok (Some (ErrorString ''memstore: len(send) != len(recv)''), New)
   \<and> run_calls stub New [Call_StoreSession ''a@x'' ''b@x'' ''h'' ''r'' ''c'' [''k0''] [''k1''],
                          Call_DelMessageKey ''a@x'' ''b@x'' ''h'' True 0]
       = Some (New\<lparr>sessions := [''a@x@b@x@h'' \<mapsto> \<lparr>rootKeyHash = ''r'', chainKey = ''c'',
                                       send = [[]], recv = [''k1'']\<rparr>],
                     senderSessionPubHash := ''h''\<rparr>)
   \<and> length [[] :: string] = length [''k1'']"
proof -
  let ?ms = "New\<lparr>sessions := [''a@x@b@x@h'' \<mapsto> \<lparr>rootKeyHash = ''r'', chainKey = ''c'',
                                  send = [[]], recv = [''k1'']\<rparr>],
                senderSessionPubHash := ''h''\<rparr>"
  have r: "run_calls stub New [Call_StoreSession ''a@x'' ''b@x'' ''h'' ''r'' ''c'' [''k0''] [''k1''],
                               Call_DelMessageKey ''a@x'' ''b@x'' ''h'' True 0] = Some ?ms"
    by (simp add: StoreSession_def DelMessageKey_def stub_def New_def)
  have s: "sessions ?ms ''a@x@b@x@h'' = Some \<lparr>rootKeyHash = ''r'', chainKey = ''c'',
                                               send = [[]], recv = [''k1'']\<rparr>"
    by simp
  from StoreSession_length_mismatch [of "[''k0'', ''k1'']" "[''k0'']" stub New
          "''a@x''" "''b@x''" "''h''" "''r''" "''c''" "[]" New "[]"]
       StoreSession_length_mismatch [of "[]" "[]" stub New "[]" "[]" "[]" "[]" "[]" 
          "[Call_StoreSession ''a@x'' ''b@x'' ''h'' ''r'' ''c'' [''k0''] [''k1''],
            Call_DelMessageKey ''a@x'' ''b@x'' ''h'' True 0]" ?ms "''a@x@b@x@h''"] r s
  show ?thesis
    by (simp add: StoreSession_def stub_def log_Error_def)
qed

lemma apply_call_sessionStates:
  assumes "apply_call L ms c = Ok (err, ms')"
  shows "(sessionStates ms' k = None) =
           (sessionStates ms k = None \<and> k \<notin> set (map state_key (state_pairs [c])))"
  using assms
  by (cases c)
     (auto simp: SetSessionState_def StoreSession_def DelMessageKey_def Let_def
        state_key_def split: option.splits if_splits)

lemma apply_call_no_nil_state:
  assumes "apply_call L ms c = Ok (err, ms')" and "no_nil_state ms"
  shows "no_nil_state ms'"
  using assms
  by (cases c)
     (auto simp: SetSessionState_def StoreSession_def DelMessageKey_def Let_def
        no_nil_state_def split: option.splits if_splits)

lemma state_pairs_Cons: "state_pairs (c # cs) = state_pairs [c] @ state_pairs cs"
  by (cases c) simp_all

lemma run_calls_sessionStates:
  assumes "run_calls L ms0 cs = Some ms"
  shows "((sessionStates ms k = None) =
           (sessionStates ms0 k = None \<and> k \<notin> set (map state_key (state_pairs cs))))
         \<and> (no_nil_state ms0 \<longrightarrow> no_nil_state ms)"
  using assms
proof (induction cs arbitrary: ms0)
  case Nil
  then show ?case by simp
next
  case (Cons c cs)
  from Cons.prems obtain err ms1 where
    step: "apply_call L ms0 c = Ok (err, ms1)" and rest: "run_calls L ms1 cs = Some ms"
    by (auto split: result.splits)
  from Cons.IH [OF rest] apply_call_sessionStates [OF step, of k]
       apply_call_no_nil_state [OF step]
  show ?case
    by (subst state_pairs_Cons) auto
qed

lemma no_nil_state_New: "no_nil_state New"
  by (simp add: no_nil_state_def New_def)

text \<open>
  Two pairs are filed under the same key only if an \<open>@\<close> moves across the boundary:
  with as many \<open>@\<close> in the two first components, the key determines the pair.
\<close>

lemma state_key_inject:
  assumes "count_list m1 CHR ''@'' = count_list m2 CHR ''@''"
    and "m1 @ ''@'' @ c1 = m2 @ ''@'' @ c2"
  shows "m1 = m2 \<and> c1 = c2"
proof -
  from assms(2) obtain u where
    u: "(m1 = m2 @ u \<and> u @ ''@'' @ c1 = ''@'' @ c2)
        \<or> (m1 @ u = m2 \<and> ''@'' @ c1 = u @ ''@'' @ c2)"
    by (auto simp: append_eq_append_conv2)
  have "u = []"
  proof (cases u)
    case Nil
    then show ?thesis .
  next
    case (Cons x u')
    with u have "x = CHR ''@''" by auto
    with Cons u assms(1) show ?thesis by auto
  qed
  with u show ?thesis by auto
qed

lemma state_key_in_pairs:
  assumes "single_at myID" and "\<forall>p \<in> set ps. single_at (fst p)"
  shows "(myID @ ''@'' @ contactID \<in> set (map state_key ps)) = ((myID, contactID) \<in> set ps)"
proof
  assume "myID @ ''@'' @ contactID \<in> set (map state_key ps)"
  then obtain m c where mc: "(m, c) \<in> set ps"
    and k: "myID @ ''@'' @ contactID = m @ ''@'' @ c"
    by (auto simp: state_key_def)
  from mc assms have "count_list myID CHR ''@'' = count_list m CHR ''@''"
    by (auto simp: single_at_def)
  from state_key_inject [OF this k] mc show "(myID, contactID) \<in> set ps" by simp
next
  assume "(myID, contactID) \<in> set ps"
  then show "myID @ ''@'' @ contactID \<in> set (map state_key ps)"
    by (force simp: state_key_def)
qed

text \<open>
  Claim C9, as the code has it.  \<open>GetSessionState\<close> never fails: its error is nil for
  every store and every pair of identity strings.  In a store reached from \<open>New()\<close>
  by calls of \<open>SetSessionState\<close>, \<open>StoreSession\<close> and \<open>DelMessageKey\<close>, it returns the
  nil state exactly when no \<open>SetSessionState\<close> call was made under the same key
  \<open>myID + "@" + contactID\<close>.  When \<open>myID\<close> and the \<open>myID\<close> of every such call have
  exactly one \<open>@\<close>, that is: exactly when no state was set for that pair.
\<close>

theorem GetSessionState_nil_iff_unset:
  assumes "run_calls L New cs = Some ms"
  shows "snd (GetSessionState ms' myID contactID) = None
       \<and> (fst (GetSessionState ms myID contactID) = None) =
           (myID @ ''@'' @ contactID \<notin> set (map state_key (state_pairs cs)))
       \<and> (single_at myID \<and> (\<forall>p \<in> set (state_pairs cs). single_at (fst p)) \<longrightarrow>
            (fst (GetSessionState ms myID contactID) = None) =
              ((myID, contactID) \<notin> set (state_pairs cs)))"
proof -
  from run_calls_sessionStates [OF assms, of "myID @ ''@'' @ contactID"] no_nil_state_New
  have a: "(sessionStates ms (myID @ ''@'' @ contactID) = None) =
           (myID @ ''@'' @ contactID \<notin> set (map state_key (state_pairs cs)))"
    and b: "no_nil_state ms"
    by (simp_all add: New_def)
  from b have c: "sessionStates ms (myID @ ''@'' @ contactID) \<noteq> Some None"
    by (simp add: no_nil_state_def)
  have e: "snd (GetSessionState ms' myID contactID) = None"
    by (simp add: GetSessionState_def split: option.splits)
  have k: "(fst (GetSessionState ms myID contactID) = None) =
           (myID @ ''@'' @ contactID \<notin> set (map state_key (state_pairs cs)))"
    using a c by (auto simp: GetSessionState_def split: option.splits)
  have p: "(fst (GetSessionState ms myID contactID) = None) =
              ((myID, contactID) \<notin> set (state_pairs cs))"
    if "single_at myID \<and> (\<forall>p \<in> set (state_pairs cs). single_at (fst p))"
    using k state_key_in_pairs [of myID "state_pairs cs" contactID] that by simp
  from e k p show ?thesis by blast
qed

theorem GetSessionState_nil_iff_unset_witness:
  "run_calls stub New
     [Call_SetSessionState ''alice@mute.berlin'' ''bob@mute.berlin'' (Some 1)]
     = Some (New\<lparr>sessionStates := [''alice@mute.berlin@bob@mute.berlin'' \<mapsto> Some 1]\<rparr>)
   \<and> single_at ''bob@mute.berlin''
   \<and> single_at ''alice@mute.berlin''
   \<and> GetSessionState (New\<lparr>sessionStates := [''alice@mute.berlin@bob@mute.berlin'' \<mapsto> Some 1]\<rparr>)
        ''bob@mute.berlin'' ''alice@mute.berlin'' = (None, None)
   \<and> GetSessionState (New\<lparr>sessionStates := [''alice@mute.berlin@bob@mute.berlin'' \<mapsto> Some 1]\<rparr>)
        ''alice@mute.berlin'' ''bob@mute.berlin'' = (Some 1, None)"
proof -
  let ?ms = "New\<lparr>sessionStates := [''alice@mute.berlin@bob@mute.berlin'' \<mapsto> Some 1]\<rparr>"
  have r: "run_calls stub New
             [Call_SetSessionState ''alice@mute.berlin'' ''bob@mute.berlin'' (Some 1)] = Some ?ms"
    by (simp add: SetSessionState_def New_def)
  have s: "single_at ''bob@mute.berlin''" "single_at ''alice@mute.berlin''"
    by (simp_all add: single_at_def)
  from GetSessionState_nil_iff_unset [OF r, of ?ms "''bob@mute.berlin''" "''alice@mute.berlin''"] s
  have "fst (GetSessionState ?ms ''bob@mute.berlin'' ''alice@mute.berlin'') = None"
    by simp
  with r s show ?thesis
    by (simp add: GetSessionState_def New_def)
qed

text \<open>
  The claim as it was stated, with "for that pair", fails: after
  \<open>SetSessionState("a@b", "c", p)\<close> on a new store, no state has been set for the
  pair \<open>("a", "b@c")\<close>, and \<open>GetSessionState("a", "b@c")\<close> returns \<open>p\<close>, since both pairs
  are filed under \<open>a@b@c\<close>.
\<close>

theorem GetSessionState_key_collision:
  "GetSessionState_after stub [Call_SetSessionState ''a@b'' ''c'' (Some 1)] ''a'' ''b@c''
     = Some (Some 1, None)
   \<and> (''a'', ''b@c'') \<notin> set (state_pairs [Call_SetSessionState ''a@b'' ''c'' (Some 1)])"
  by (simp add: GetSessionState_after_def GetSessionState_def SetSessionState_def New_def)

subsection \<open>Key-init messages\<close>

text \<open>
  Claim C7.  \<open>KeyInit.Check\<close> returns the nil error exactly when \<open>Contents.VERSION\<close> is
  the string \<open>1.0\<close> and \<open>Contents.MSGCOUNT\<close> is 0; for every other key-init message it
  returns an error.
\<close>

theorem Check_nil_iff:
  "(Check ki = None) = (VERSION (Contents ki) = ''1.0'' \<and> MSGCOUNT (Contents ki) = 0)"
  by (simp add: Check_def checkV1_0_def)

lemma Verify_Ok:
  assumes "Verify L uris sigPubKey now ki = Ok ()"
  shows "ContainsString uris (REPOURI (Contents ki))"
    and "NOTBEFORE (Contents ki) < NOTAFTER (Contents ki)"
    and "now \<le> NOTAFTER (Contents ki)"
    and "\<exists>sig pubKey. base64_Decode L (SIGNATURE ki) = Inr sig
           \<and> base64_Decode L sigPubKey = Inr pubKey
           \<and> Ed25519_Verify L pubKey (marshalSorted_contents L (Contents ki)) sig"
  using assms
  by (auto simp: Verify_def split: if_splits result.splits option.splits sum.splits)

lemma Verify_invalid_times:
  assumes "ContainsString uris (REPOURI (Contents ki))"
    and "KeyInit_SessionAnchor L ki sigPubKey = Ok sa"
    and "SessionAnchor_KeyEntry sa ''ECDHE25519'' = Ok ke"
    and "KeyEntry_Verify L ke = None"
    and "NOTAFTER (Contents ki) \<le> NOTBEFORE (Contents ki)"
  shows "Verify L uris sigPubKey now ki = Err ErrInvalidTimes"
  using assms by (simp add: Verify_def)

lemma Verify_expired:
  assumes "ContainsString uris (REPOURI (Contents ki))"
    and "KeyInit_SessionAnchor L ki sigPubKey = Ok sa"
    and "SessionAnchor_KeyEntry sa ''ECDHE25519'' = Ok ke"
    and "KeyEntry_Verify L ke = None"
    and "NOTBEFORE (Contents ki) < NOTAFTER (Contents ki)"
    and "NOTAFTER (Contents ki) < now"
  shows "Verify L uris sigPubKey now ki = Err ErrExpired"
  using assms by (simp add: Verify_def not_le [symmetric])

lemma Verify_invalid_signature:
  assumes "ContainsString uris (REPOURI (Contents ki))"
    and "KeyInit_SessionAnchor L ki sigPubKey = Ok sa"
    and "SessionAnchor_KeyEntry sa ''ECDHE25519'' = Ok ke"
    and "KeyEntry_Verify L ke = None"
    and "NOTBEFORE (Contents ki) < NOTAFTER (Contents ki)"
    and "now \<le> NOTAFTER (Contents ki)"
    and "base64_Decode L (SIGNATURE ki) = Inr sig"
    and "base64_Decode L sigPubKey = Inr pubKey"
    and "\<not> Ed25519_Verify L pubKey (marshalSorted_contents L (Contents ki)) sig"
  shows "Verify L uris sigPubKey now ki = Err ErrInvalidKeyInitSig"
  using assms by (simp add: Verify_def not_le [symmetric])

text \<open>
  Claim C3, as the code has it.  \<open>Verify\<close> returns nil only if \<open>SIGNATURE\<close> decodes to a
  signature that \<open>Ed25519Key.Verify\<close> accepts for the sorted JSON of \<open>Contents\<close> under
  the decoded public key.  A key-init message that gets through the checks \<open>Verify\<close>
  makes first (repository URI, session anchor, ECDHE25519 key entry, validity
  window) and whose \<open>SIGNATURE\<close> decodes but does not verify gets
  \<open>ErrInvalidKeyInitSig\<close>.
\<close>

theorem Verify_signature:
  "(Verify L uris sigPubKey now ki = Ok () \<longrightarrow>
      (\<exists>sig pubKey. base64_Decode L (SIGNATURE ki) = Inr sig
         \<and> base64_Decode L sigPubKey = Inr pubKey
         \<and> Ed25519_Verify L pubKey (marshalSorted_contents L (Contents ki)) sig))
   \<and> (ContainsString uris (REPOURI (Contents ki))
      \<and> KeyInit_SessionAnchor L ki sigPubKey = Ok sa
      \<and> SessionAnchor_KeyEntry sa ''ECDHE25519'' = Ok ke
      \<and> KeyEntry_Verify L ke = None
      \<and> NOTBEFORE (Contents ki) < NOTAFTER (Contents ki)
      \<and> now \<le> NOTAFTER (Contents ki)
      \<and> base64_Decode L (SIGNATURE ki) = Inr sig
      \<and> base64_Decode L sigPubKey = Inr pubKey
      \<and> \<not> Ed25519_Verify L pubKey (marshalSorted_contents L (Contents ki)) sig
      \<longrightarrow> Verify L uris sigPubKey now ki = Err ErrInvalidKeyInitSig)"
proof (intro conjI impI)
  assume "Verify L uris sigPubKey now ki = Ok ()"
  then show "\<exists>sig pubKey. base64_Decode L (SIGNATURE ki) = Inr sig
         \<and> base64_Decode L sigPubKey = Inr pubKey
         \<and> Ed25519_Verify L pubKey (marshalSorted_contents L (Contents ki)) sig"
    by (rule Verify_Ok(4))
next
  assume a: "ContainsString uris (REPOURI (Contents ki))
      \<and> KeyInit_SessionAnchor L ki sigPubKey = Ok sa
      \<and> SessionAnchor_KeyEntry sa ''ECDHE25519'' = Ok ke
      \<and> KeyEntry_Verify L ke = None
      \<and> NOTBEFORE (Contents ki) < NOTAFTER (Contents ki)
      \<and> now \<le> NOTAFTER (Contents ki)
      \<and> base64_Decode L (SIGNATURE ki) = Inr sig
      \<and> base64_Decode L sigPubKey = Inr pubKey
      \<and> \<not> Ed25519_Verify L pubKey (marshalSorted_contents L (Contents ki)) sig"
  then show "Verify L uris sigPubKey now ki = Err ErrInvalidKeyInitSig"
    by (intro Verify_invalid_signature [where sa = sa and ke = ke and sig = sig
          and pubKey = pubKey]) simp_all
qed

text \<open>
  Claim C4, as the code has it.  \<open>Verify\<close> never returns nil for a key-init message
  whose \<open>NOTBEFORE\<close> is not before its \<open>NOTAFTER\<close>, or whose \<open>NOTAFTER\<close> is before the
  current time.  For a message that gets through the checks \<open>Verify\<close> makes first
  (repository URI, session anchor, ECDHE25519 key entry), the error is
  \<open>ErrInvalidTimes\<close> when \<open>NOTBEFORE \<ge> NOTAFTER\<close>, and otherwise \<open>ErrExpired\<close> when
  \<open>NOTAFTER\<close> is before the current time.
\<close>

theorem Verify_validity_window:
  "((NOTAFTER (Contents ki) \<le> NOTBEFORE (Contents ki) \<or> NOTAFTER (Contents ki) < now)
      \<longrightarrow> Verify L uris sigPubKey now ki \<noteq> Ok ())
   \<and> (ContainsString uris (REPOURI (Contents ki))
      \<and> KeyInit_SessionAnchor L ki sigPubKey = Ok sa
      \<and> SessionAnchor_KeyEntry sa ''ECDHE25519'' = Ok ke
      \<and> KeyEntry_Verify L ke = None
      \<longrightarrow> (NOTAFTER (Contents ki) \<le> NOTBEFORE (Contents ki)
             \<longrightarrow> Verify L uris sigPubKey now ki = Err ErrInvalidTimes)
          \<and> (NOTBEFORE (Contents ki) < NOTAFTER (Contents ki) \<and> NOTAFTER (Contents ki) < now
             \<longrightarrow> Verify L uris sigPubKey now ki = Err ErrExpired))"
proof (intro conjI impI)
  assume w: "NOTAFTER (Contents ki) \<le> NOTBEFORE (Contents ki) \<or> NOTAFTER (Contents ki) < now"
  show "Verify L uris sigPubKey now ki \<noteq> Ok ()"
  proof
    assume ok: "Verify L uris sigPubKey now ki = Ok ()"
    from Verify_Ok(2) [OF ok] Verify_Ok(3) [OF ok] w show False
      by auto
  qed
next
  assume a: "ContainsString uris (REPOURI (Contents ki))
      \<and> KeyInit_SessionAnchor L ki sigPubKey = Ok sa
      \<and> SessionAnchor_KeyEntry sa ''ECDHE25519'' = Ok ke
      \<and> KeyEntry_Verify L ke = None"
    and t: "NOTAFTER (Contents ki) \<le> NOTBEFORE (Contents ki)"
  from a t show "Verify L uris sigPubKey now ki = Err ErrInvalidTimes"
    by (intro Verify_invalid_times [where sa = sa and ke = ke]) simp_all
next
  assume a: "ContainsString uris (REPOURI (Contents ki))
      \<and> KeyInit_SessionAnchor L ki sigPubKey = Ok sa
      \<and> SessionAnchor_KeyEntry sa ''ECDHE25519'' = Ok ke
      \<and> KeyEntry_Verify L ke = None"
    and t: "NOTBEFORE (Contents ki) < NOTAFTER (Contents ki) \<and> NOTAFTER (Contents ki) < now"
  from a t show "Verify L uris sigPubKey now ki = Err ErrExpired"
    by (intro Verify_expired [where sa = sa and ke = ke]) simp_all
qed

lemma Message_sessionAnchor_Ok:
  assumes "Message_sessionAnchor L msg key mixaddress nymaddress rand = Ok (enc, sah, pkh, priv)"
    and "InitDHKey L rand = Inr (ke, rand')"
  shows "32 \<le> length key"
    and "\<exists>ct rest. CTREncrypt L (take 32 key)
             (marshalSorted_SessionAnchor L
                \<lparr>MIXADDRESS = mixaddress, NYMADDRESS = nymaddress, PFKEYS = [ke]\<rparr>) rand'
             = Ok (ct, rest) \<and> enc = base64_Encode L ct"
    and "sah = base64_Encode L (SHA512 L (marshalSorted_SessionAnchor L
                \<lparr>MIXADDRESS = mixaddress, NYMADDRESS = nymaddress, PFKEYS = [ke]\<rparr>))"
  using assms
  by (auto simp: Message_sessionAnchor_def Let_def
        split: if_splits result.splits option.splits)

lemma Message_KeyInit_Ok:
  assumes "Message_KeyInit L msg msgcount notafter notbefore fallback repoURI mixaddress
             nymaddress rand now1 now2 = Ok (ki, pubKeyHash, privateKey)"
  shows "\<exists>keyHash enc sah.
           base64_Decode L (HASH (SIGKEY (UIDContent msg))) = Inr keyHash
         \<and> Message_sessionAnchor L msg keyHash mixaddress nymaddress rand
             = Ok (enc, sah, pubKeyHash, privateKey)
         \<and> SIGKEYHASH (Contents ki) = base64_Encode L (SHA512 L keyHash)
         \<and> SESSIONANCHOR (Contents ki) = enc
         \<and> SESSIONANCHORHASH (Contents ki) = sah"
  using assms
  by (auto simp: Message_KeyInit_def Let_def
        split: if_splits result.splits sum.splits list.splits)

text \<open>
  Claim C2.  Let \<open>KeyInit\<close> succeed for a UID message whose signing key entry carries
  the hash of the public key \<open>pubKey\<close> (\<open>HASH\<close> is the encoded SHA-512 of the key), and
  let \<open>sa\<close> be the session anchor it generated: the two addresses and the new key
  entry \<open>ke\<close>.  Then \<open>SIGKEYHASH\<close> is the encoded double hash of \<open>pubKey\<close>,
  \<open>SESSIONANCHORHASH\<close> is the encoded hash of the JSON of \<open>sa\<close>, \<open>SESSIONANCHOR\<close> is the
  encoded AES-256-CTR ciphertext of that JSON under the first 32 bytes of the hash of
  \<open>pubKey\<close>, and \<open>SessionAnchor\<close>, called with the encoded \<open>pubKey\<close>, passes both hash
  checks and returns the session anchor that JSON decodes to.  The hypotheses on the
  outside functions are the round trips of the two codecs: decoding an encoding
  gives the bytes back, and the anchor decoded from the JSON of \<open>sa\<close> has that same
  JSON.
\<close>

theorem KeyInit_SessionAnchor_roundtrip:
  assumes b64: "\<And>x. base64_Decode L (base64_Encode L x) = Inr x"
    and pk: "base64_Decode L sigPubKey = Inr pubKey"
    and hash: "HASH (SIGKEY (UIDContent msg)) = base64_Encode L (SHA512 L pubKey)"
    and gen: "Message_KeyInit L msg msgcount notafter notbefore fallback repoURI mixaddress
                nymaddress rand now1 now2 = Ok (ki, pubKeyHash, privateKey)"
    and dh: "InitDHKey L rand = Inr (ke, rand')"
    and sa: "sa = \<lparr>MIXADDRESS = mixaddress, NYMADDRESS = nymaddress, PFKEYS = [ke]\<rparr>"
    and json: "json_Unmarshal L (marshalSorted_SessionAnchor L sa) = Inr sa'"
    and json': "marshalSorted_SessionAnchor L sa' = marshalSorted_SessionAnchor L sa"
  shows "KeyInit_SessionAnchor L ki sigPubKey = Ok sa'
       \<and> SIGKEYHASH (Contents ki) = base64_Encode L (SHA512 L (SHA512 L pubKey))
       \<and> SESSIONANCHORHASH (Contents ki)
           = base64_Encode L (SHA512 L (marshalSorted_SessionAnchor L sa))
       \<and> (\<exists>ct rest. CTREncrypt L (take 32 (SHA512 L pubKey))
                       (marshalSorted_SessionAnchor L sa) rand' = Ok (ct, rest)
                    \<and> SESSIONANCHOR (Contents ki) = base64_Encode L ct)"
proof -
  let ?jsn = "marshalSorted_SessionAnchor L sa"
  from Message_KeyInit_Ok [OF gen] obtain keyHash enc sah where
    kh: "base64_Decode L (HASH (SIGKEY (UIDContent msg))) = Inr keyHash"
    and msa: "Message_sessionAnchor L msg keyHash mixaddress nymaddress rand
                = Ok (enc, sah, pubKeyHash, privateKey)"
    and f1: "SIGKEYHASH (Contents ki) = base64_Encode L (SHA512 L keyHash)"
    and f2: "SESSIONANCHOR (Contents ki) = enc"
    and f3: "SESSIONANCHORHASH (Contents ki) = sah"
    by blast
  from kh hash b64 have keyHash: "keyHash = SHA512 L pubKey" by simp
  from Message_sessionAnchor_Ok(2) [OF msa dh] obtain ct rest where
    enc: "CTREncrypt L (take 32 keyHash) ?jsn rand' = Ok (ct, rest)"
    and enc': "enc = base64_Encode L ct"
    unfolding sa by blast
  have len: "32 \<le> length keyHash" by (rule Message_sessionAnchor_Ok(1) [OF msa dh])
  have sah: "sah = base64_Encode L (SHA512 L ?jsn)"
    unfolding sa by (rule Message_sessionAnchor_Ok(3) [OF msa dh])
  have dec: "CTRDecrypt L (take 32 keyHash) ct = Ok ?jsn"
    using enc by (rule CTRDecrypt_CTREncrypt)
  have anchor: "KeyInit_SessionAnchor L ki sigPubKey = Ok sa'"
    using pk f1 f2 f3 enc' sah len dec json json' b64
    by (simp add: KeyInit_SessionAnchor_def Let_def keyHash)
  show ?thesis
  proof (intro conjI)
    show "KeyInit_SessionAnchor L ki sigPubKey = Ok sa'" by (rule anchor)
    show "SIGKEYHASH (Contents ki) = base64_Encode L (SHA512 L (SHA512 L pubKey))"
      using f1 keyHash by simp
    show "SESSIONANCHORHASH (Contents ki) = base64_Encode L (SHA512 L ?jsn)"
      using f3 sah by simp
    show "\<exists>ct rest. CTREncrypt L (take 32 (SHA512 L pubKey)) ?jsn rand' = Ok (ct, rest)
                    \<and> SESSIONANCHOR (Contents ki) = base64_Encode L ct"
      using enc enc' f2 keyHash by (intro exI [of _ ct] exI [of _ rest]) simp
  qed
qed

subsection \<open>The example key-init message\<close>

lemma byte_char_byte: "(of_nat (of_char (char_of (unat (b :: byte)) :: char)) :: byte) = b"
proof -
  have "unat b < 256" using unsigned_less [of b, where 'a = nat] by simp
  then show ?thesis by simp
qed

lemma bytes_of_string_of_bytes: "bytes_of_string (string_of_bytes bs) = bs"
  by (induction bs)
     (simp_all add: bytes_of_string_def string_of_bytes_def byte_char_byte del: of_char_of)

lemma stub_base64: "base64_Decode stub (base64_Encode stub x) = Inr x"
  by (simp add: stub_def bytes_of_string_of_bytes)

lemma length_stub_hash: "length (stub_hash x) = 64"
  by (simp add: stub_hash_def)

lemma example_keystream:
  "XORKeyStream (\<lambda>b. b + 32) (be_word [0, 1, 2, 3, 4, 5, 6, 7, 8, 9, 10, 11, 12, 13, 14, 15])
     [3, 109, 105, 120, 110, 121, 109] = [3, 108, 107, 123, 106, 124, 107]"
  by code_simp

lemma example_keystream_back:
  "XORKeyStream (\<lambda>b. b + 32) (be_word [0, 1, 2, 3, 4, 5, 6, 7, 8, 9, 10, 11, 12, 13, 14, 15])
     [3, 108, 107, 123, 106, 124, 107] = [3, 109, 105, 120, 110, 121, 109]"
  using XORKeyStream_involution
          [of "\<lambda>b. b + 32" "be_word [0, 1, 2, 3, 4, 5, 6, 7, 8, 9, 10, 11, 12, 13, 14, 15]"
              "[3, 109, 105, 120, 110, 121, 109]"]
  by (simp only: example_keystream)

lemma example_marshal: "stub_marshal example_anchor = [3, 109, 105, 120, 110, 121, 109]"
  by (simp add: stub_marshal_def example_anchor_def bytes_of_string_def)

lemma example_unmarshal: "stub_unmarshal [3, 109, 105, 120, 110, 121, 109] = Inr example_anchor"
  by code_simp

lemma example_generated:
  "Message_KeyInit stub example_msg 0 20 10 False ''repo'' ''mix'' ''nym'' example_rand 15 15
     = Ok (example_KeyInit, ''pfkey'', string_of_bytes (replicate 32 7))"
  using example_keystream example_marshal [unfolded example_anchor_def]
  by (simp add: Message_KeyInit_def Message_sessionAnchor_def CTREncrypt_def ReadFull_def
        stub_def example_msg_def example_rand_def example_KeyInit_def example_contents_def
        example_anchor_def bytes_of_string_of_bytes length_stub_hash MaxNotAfter_def
        stub_key_def Let_def word_le_nat_alt word_less_nat_alt)

text \<open>
  \<open>SessionAnchor\<close> reads three fields of the contents, so it recovers the example
  anchor from every key-init message that has them as the example has.
\<close>

lemma example_anchor_back:
  assumes "SIGKEYHASH (Contents ki) = SIGKEYHASH example_contents"
    and "SESSIONANCHOR (Contents ki) = SESSIONANCHOR example_contents"
    and "SESSIONANCHORHASH (Contents ki) = SESSIONANCHORHASH example_contents"
  shows "KeyInit_SessionAnchor stub ki example_sigPubKey = Ok example_anchor"
  using assms example_keystream_back example_unmarshal example_marshal
  by (simp add: KeyInit_SessionAnchor_def CTRDecrypt_def
        stub_def example_sigPubKey_def example_contents_def
        bytes_of_string_of_bytes length_stub_hash Let_def)

lemma example_key_entry: "SessionAnchor_KeyEntry example_anchor ''ECDHE25519'' = Ok stub_key"
  by (simp add: SessionAnchor_KeyEntry_def example_anchor_def stub_key_def)

lemma example_key_entry_valid: "KeyEntry_Verify stub stub_key = None"
  by (simp add: stub_def)

lemma example_decoded:
  "base64_Decode stub example_sigPubKey = Inr [1, 2, 3]"
  "base64_Decode stub (SIGNATURE example_KeyInit)
     = Inr (bytes_of_string (string_of_bytes (stub_hash [1, 2, 3]))
            @ stub_contents example_contents)"
  by (simp_all add: stub_def example_sigPubKey_def example_KeyInit_def
        bytes_of_string_of_bytes)

theorem KeyInit_SessionAnchor_roundtrip_witness:
  "Message_KeyInit stub example_msg 0 20 10 False ''repo'' ''mix'' ''nym'' example_rand 15 15
     = Ok (example_KeyInit, ''pfkey'', string_of_bytes (replicate 32 7))
   \<and> KeyInit_SessionAnchor stub example_KeyInit example_sigPubKey
     = Ok \<lparr>MIXADDRESS = ''mix'', NYMADDRESS = ''nym'', PFKEYS = [stub_key]\<rparr>"
proof -
  have hash: "HASH (SIGKEY (UIDContent example_msg)) = base64_Encode stub (SHA512 stub [1, 2, 3])"
    by (simp add: example_msg_def stub_def)
  have dh: "InitDHKey stub example_rand
              = Inr (stub_key, [0, 1, 2, 3, 4, 5, 6, 7, 8, 9, 10, 11, 12, 13, 14, 15])"
    by (simp add: stub_def example_rand_def)
  have json: "json_Unmarshal stub (marshalSorted_SessionAnchor stub example_anchor)
                = Inr example_anchor"
    using example_unmarshal example_marshal by (simp add: stub_def)
  from KeyInit_SessionAnchor_roundtrip
         [of stub, OF stub_base64 example_decoded(1) hash example_generated dh _ json refl]
  have "KeyInit_SessionAnchor stub example_KeyInit example_sigPubKey = Ok example_anchor"
    by (simp add: example_anchor_def)
  with example_generated show ?thesis
    by (simp add: example_anchor_def)
qed

theorem Verify_signature_witness:
  "Verify stub [''repo''] example_sigPubKey 15 example_KeyInit = Ok ()
   \<and> Ed25519_Verify stub [1, 2, 3] (marshalSorted_contents stub (Contents example_KeyInit))
        (bytes_of_string (string_of_bytes (stub_hash [1, 2, 3])) @ stub_contents example_contents)
   \<and> \<not> Ed25519_Verify stub [1, 2, 3]
        (marshalSorted_contents stub (example_contents\<lparr>FALLBACK := True\<rparr>))
        (bytes_of_string (string_of_bytes (stub_hash [1, 2, 3])) @ stub_contents example_contents)
   \<and> Verify stub [''repo''] example_sigPubKey 15
        (example_KeyInit\<lparr>Contents := example_contents\<lparr>FALLBACK := True\<rparr>\<rparr>)
      = Err ErrInvalidKeyInitSig"
proof -
  let ?ki = "example_KeyInit\<lparr>Contents := example_contents\<lparr>FALLBACK := True\<rparr>\<rparr>"
  let ?sig = "bytes_of_string (string_of_bytes (stub_hash [1, 2, 3]))
              @ stub_contents example_contents"
  have anchor: "KeyInit_SessionAnchor stub example_KeyInit example_sigPubKey = Ok example_anchor"
    by (rule example_anchor_back) (simp_all add: example_KeyInit_def)
  have good: "Ed25519_Verify stub [1, 2, 3]
                (marshalSorted_contents stub (Contents example_KeyInit)) ?sig"
    by (simp add: stub_def example_KeyInit_def)
  have ok: "Verify stub [''repo''] example_sigPubKey 15 example_KeyInit = Ok ()"
    using anchor example_key_entry example_key_entry_valid example_decoded good
    by (simp add: Verify_def)
       (simp add: example_KeyInit_def example_contents_def word_le_nat_alt word_less_nat_alt)
  have anchor': "KeyInit_SessionAnchor stub ?ki example_sigPubKey = Ok example_anchor"
    by (rule example_anchor_back) simp_all
  have bad: "\<not> Ed25519_Verify stub [1, 2, 3] (marshalSorted_contents stub (Contents ?ki)) ?sig"
    by (simp add: stub_def stub_contents_def example_contents_def)
  have hyps: "ContainsString [''repo''] (REPOURI (Contents ?ki))
      \<and> KeyInit_SessionAnchor stub ?ki example_sigPubKey = Ok example_anchor
      \<and> SessionAnchor_KeyEntry example_anchor ''ECDHE25519'' = Ok stub_key
      \<and> KeyEntry_Verify stub stub_key = None
      \<and> NOTBEFORE (Contents ?ki) < NOTAFTER (Contents ?ki)
      \<and> 15 \<le> NOTAFTER (Contents ?ki)
      \<and> base64_Decode stub (SIGNATURE ?ki) = Inr ?sig
      \<and> base64_Decode stub example_sigPubKey = Inr [1, 2, 3]
      \<and> \<not> Ed25519_Verify stub [1, 2, 3] (marshalSorted_contents stub (Contents ?ki)) ?sig"
    using anchor' example_key_entry example_key_entry_valid example_decoded bad
    by (simp add: example_contents_def word_le_nat_alt word_less_nat_alt)
  from Verify_signature [of stub "[''repo'']" example_sigPubKey 15 ?ki example_anchor stub_key
         ?sig "[1, 2, 3]"] hyps
  have "Verify stub [''repo''] example_sigPubKey 15 ?ki = Err ErrInvalidKeyInitSig"
    by blast
  with ok good bad show ?thesis by simp
qed

theorem Verify_validity_window_witness:
  "Verify stub [''repo''] example_sigPubKey 15
     (example_KeyInit\<lparr>Contents := example_contents\<lparr>NOTBEFORE := 20\<rparr>\<rparr>) = Err ErrInvalidTimes
   \<and> Verify stub [''repo''] example_sigPubKey 21 example_KeyInit = Err ErrExpired
   \<and> Verify stub [''repo''] example_sigPubKey 21 example_KeyInit \<noteq> Ok ()"
proof -
  let ?ki = "example_KeyInit\<lparr>Contents := example_contents\<lparr>NOTBEFORE := 20\<rparr>\<rparr>"
  have anchor: "KeyInit_SessionAnchor stub example_KeyInit example_sigPubKey = Ok example_anchor"
    by (rule example_anchor_back) (simp_all add: example_KeyInit_def)
  have anchor': "KeyInit_SessionAnchor stub ?ki example_sigPubKey = Ok example_anchor"
    by (rule example_anchor_back) simp_all
  have inverted: "ContainsString [''repo''] (REPOURI (Contents ?ki))
      \<and> KeyInit_SessionAnchor stub ?ki example_sigPubKey = Ok example_anchor
      \<and> SessionAnchor_KeyEntry example_anchor ''ECDHE25519'' = Ok stub_key
      \<and> KeyEntry_Verify stub stub_key = None"
    and i: "NOTAFTER (Contents ?ki) \<le> NOTBEFORE (Contents ?ki)"
    using anchor' example_key_entry example_key_entry_valid
    by (simp_all add: example_contents_def)
  have expired: "ContainsString [''repo''] (REPOURI (Contents example_KeyInit))
      \<and> KeyInit_SessionAnchor stub example_KeyInit example_sigPubKey = Ok example_anchor
      \<and> SessionAnchor_KeyEntry example_anchor ''ECDHE25519'' = Ok stub_key
      \<and> KeyEntry_Verify stub stub_key = None"
    and e: "NOTBEFORE (Contents example_KeyInit) < NOTAFTER (Contents example_KeyInit)
      \<and> NOTAFTER (Contents example_KeyInit) < 21"
    using anchor example_key_entry example_key_entry_valid
    by (simp_all add: example_KeyInit_def example_contents_def word_less_nat_alt)
  from Verify_validity_window
         [of ?ki 15 stub "[''repo'']" example_sigPubKey example_anchor stub_key] inverted i
  have a: "Verify stub [''repo''] example_sigPubKey 15 ?ki = Err ErrInvalidTimes"
    by blast
  from Verify_validity_window
         [of example_KeyInit 21 stub "[''repo'']" example_sigPubKey example_anchor stub_key]
       expired e
  have b: "Verify stub [''repo''] example_sigPubKey 21 example_KeyInit = Err ErrExpired"
    and c: "Verify stub [''repo''] example_sigPubKey 21 example_KeyInit \<noteq> Ok ()"
    by blast+
  from a b c show ?thesis by simp
qed

text \<open>
  Claim C3 as it was stated fails.  Change \<open>REPOURI\<close> in the contents of the example
  key-init message: its signature no longer verifies, and \<open>Verify\<close>, asked with the
  repository of the original, returns \<open>ErrRepoURI\<close>, not \<open>ErrInvalidKeyInitSig\<close>: the
  repository check comes first.
\<close>

theorem Verify_signature_counterexample:
  "base64_Decode stub (SIGNATURE (example_KeyInit\<lparr>Contents := example_contents\<lparr>REPOURI := ''evil''\<rparr>\<rparr>))
     = Inr (bytes_of_string (string_of_bytes (stub_hash [1, 2, 3]))
            @ stub_contents example_contents)
   \<and> base64_Decode stub example_sigPubKey = Inr [1, 2, 3]
   \<and> \<not> Ed25519_Verify stub [1, 2, 3]
        (marshalSorted_contents stub
           (Contents (example_KeyInit\<lparr>Contents := example_contents\<lparr>REPOURI := ''evil''\<rparr>\<rparr>)))
        (bytes_of_string (string_of_bytes (stub_hash [1, 2, 3]))
         @ stub_contents example_contents)
   \<and> Verify stub [''repo''] example_sigPubKey 15
        (example_KeyInit\<lparr>Contents := example_contents\<lparr>REPOURI := ''evil''\<rparr>\<rparr>)
      = Err ErrRepoURI
   \<and> Err ErrRepoURI \<noteq> (Err ErrInvalidKeyInitSig :: unit result)"
proof -
  have bad: "\<not> Ed25519_Verify stub [1, 2, 3]
        (marshalSorted_contents stub
           (Contents (example_KeyInit\<lparr>Contents := example_contents\<lparr>REPOURI := ''evil''\<rparr>\<rparr>)))
        (bytes_of_string (string_of_bytes (stub_hash [1, 2, 3]))
         @ stub_contents example_contents)"
    by (simp add: stub_def stub_contents_def example_contents_def bytes_of_string_def)
  have repo: "Verify stub [''repo''] example_sigPubKey 15
        (example_KeyInit\<lparr>Contents := example_contents\<lparr>REPOURI := ''evil''\<rparr>\<rparr>)
      = Err ErrRepoURI"
    by (simp add: Verify_def)
  from example_decoded bad repo show ?thesis
    by (simp add: example_KeyInit_def)
qed

text \<open>
  Claim C4 as it was stated fails twice.  The example key-init message with a
  validity window from 20 to 20 passes every earlier check; asked at time 25, when
  it is expired as well, \<open>Verify\<close> returns \<open>ErrInvalidTimes\<close>, not \<open>ErrExpired\<close>.  And
  asked with a list of repositories that lacks its \<open>REPOURI\<close>, \<open>Verify\<close> returns
  \<open>ErrRepoURI\<close>, not \<open>ErrInvalidTimes\<close>.
\<close>

theorem Verify_validity_window_counterexample:
  "NOTAFTER (Contents (example_KeyInit\<lparr>Contents := example_contents\<lparr>NOTBEFORE := 20\<rparr>\<rparr>)) < 25
   \<and> NOTBEFORE (Contents (example_KeyInit\<lparr>Contents := example_contents\<lparr>NOTBEFORE := 20\<rparr>\<rparr>))
       \<ge> NOTAFTER (Contents (example_KeyInit\<lparr>Contents := example_contents\<lparr>NOTBEFORE := 20\<rparr>\<rparr>))
   \<and> Verify stub [''repo''] example_sigPubKey 25
        (example_KeyInit\<lparr>Contents := example_contents\<lparr>NOTBEFORE := 20\<rparr>\<rparr>) = Err ErrInvalidTimes
   \<and> Err ErrInvalidTimes \<noteq> (Err ErrExpired :: unit result)
   \<and> Verify stub [''other''] example_sigPubKey 25
        (example_KeyInit\<lparr>Contents := example_contents\<lparr>NOTBEFORE := 20\<rparr>\<rparr>) = Err ErrRepoURI
   \<and> Err ErrRepoURI \<noteq> (Err ErrInvalidTimes :: unit result)"
proof -
  let ?ki = "example_KeyInit\<lparr>Contents := example_contents\<lparr>NOTBEFORE := 20\<rparr>\<rparr>"
  have anchor: "KeyInit_SessionAnchor stub ?ki example_sigPubKey = Ok example_anchor"
    by (rule example_anchor_back) simp_all
  have times: "Verify stub [''repo''] example_sigPubKey 25 ?ki = Err ErrInvalidTimes"
    using anchor example_key_entry example_key_entry_valid
    by (simp add: Verify_def) (simp add: example_contents_def)
  have repo: "Verify stub [''other''] example_sigPubKey 25 ?ki = Err ErrRepoURI"
    by (simp add: Verify_def example_contents_def)
  from times repo show ?thesis
    by (simp add: example_contents_def word_less_nat_alt)
qed

end
